theory Spec2Isabelle
  imports Main "HOL-Library.AList" "HOL-Library.Multiset" "HOL-Library.Product_Lexorder"
begin

section \<open>Cells, rows and tables\<close>

text \<open>
  The program of \<^verbatim>\<open>html_table_to_csv_v2.py\<close> works on data frames of the table
  library. A cell is a missing value (NaN, NaT or None), a number, a text, or a timestamp
  (after date parsing). Numbers are integers: the whole numbers an HTML table of amounts
  yields; fractional values are not modelled. A timestamp is a calendar date
  (year, month, day), ordered lexicographically.
\<close>

type_synonym date = "nat \<times> nat \<times> nat"

datatype cell = Missing | Num int | Str string | Date date

text \<open>
  A row maps column names to cells, in column order; a table is its column labels and its
  rows. Column labels are texts. In a well-formed table every row carries exactly the
  table's columns, in order. The data model also asks for distinct labels: the model reads
  a label that occurs twice at its first place.
\<close>

type_synonym row = "(string \<times> cell) list"

record table =
  columns :: "string list"
  rows :: "row list"


text \<open>
  \<^verbatim>\<open>row[col]\<close>. The program only reads columns that the table has; for a name the row
  does not carry the model answers \<open>Missing\<close>, which no well-formed table reaches.
\<close>

definition cell_at :: "row \<Rightarrow> string \<Rightarrow> cell" where
  "cell_at r col = (case map_of r col of Some v \<Rightarrow> v | None \<Rightarrow> Missing)"

text \<open>\<^verbatim>\<open>pd.isna\<close>, and Python's \<^verbatim>\<open>==\<close> and \<^verbatim>\<open>!=\<close> on cells: a missing value equals
  nothing, not even itself; values of different types are unequal.\<close>

definition isna :: "cell \<Rightarrow> bool" where
  "isna v = (v = Missing)"

definition py_eq :: "cell \<Rightarrow> cell \<Rightarrow> bool" where
  "py_eq a b = (\<not> isna a \<and> \<not> isna b \<and> a = b)"

definition py_ne :: "cell \<Rightarrow> cell \<Rightarrow> bool" where
  "py_ne a b = (\<not> py_eq a b)"

datatype py_error = IndexError

section \<open>Module constants\<close>

definition APP_REF_NAME :: string where
  "APP_REF_NAME = ''Application Reference''"

definition ACTION_COL_NAME :: string where
  "ACTION_COL_NAME = ''Transaction Type''"

text \<open>The reserved column that tags each row with its file (a literal in the source).\<close>

definition SOURCE_FILE :: string where
  "SOURCE_FILE = ''_source_file''"

section \<open>String helpers of Python\<close>

text \<open>\<^verbatim>\<open>str.strip()\<close>: the ASCII white space characters are removed at both ends.\<close>

definition is_space :: "char \<Rightarrow> bool" where
  "is_space c = (let n = (of_char c :: nat) in (9 \<le> n \<and> n \<le> 13) \<or> (28 \<le> n \<and> n \<le> 32))"

definition strip :: "string \<Rightarrow> string" where
  "strip s = rev (dropWhile is_space (rev (dropWhile is_space s)))"

text \<open>\<^verbatim>\<open>str.lower()\<close> on ASCII letters.\<close>

definition lower_char :: "char \<Rightarrow> char" where
  "lower_char c =
     (case map_of (zip ''ABCDEFGHIJKLMNOPQRSTUVWXYZ'' ''abcdefghijklmnopqrstuvwxyz'') c of
        Some l \<Rightarrow> l
      | None \<Rightarrow> c)"

definition lower :: "string \<Rightarrow> string" where
  "lower s = map lower_char s"

text \<open>\<^verbatim>\<open>sub in s\<close> on texts: \<open>sub\<close> occurs in \<open>s\<close> as a contiguous piece.\<close>

fun starts_with :: "string \<Rightarrow> string \<Rightarrow> bool" where
  "starts_with [] s = True"
| "starts_with (a # as) [] = False"
| "starts_with (a # as) (c # cs) = (a = c \<and> starts_with as cs)"

fun str_contains :: "string \<Rightarrow> string \<Rightarrow> bool" where
  "str_contains sub [] = (sub = [])"
| "str_contains sub (c # cs) = (starts_with sub (c # cs) \<or> str_contains sub cs)"

text \<open>\<^verbatim>\<open>str(v)\<close> of a cell, as \<^verbatim>\<open>astype(str)\<close> computes it.\<close>

definition digit_char :: "nat \<Rightarrow> char" where
  "digit_char n = ''0123456789'' ! n"

fun str_of_nat :: "nat \<Rightarrow> string" where
  "str_of_nat n = (if n < 10 then [digit_char n] else str_of_nat (n div 10) @ [digit_char (n mod 10)])"

declare str_of_nat.simps [simp del]

definition str_of_int :: "int \<Rightarrow> string" where
  "str_of_int i = (if i < 0 then CHR ''-'' # str_of_nat (nat (- i)) else str_of_nat (nat i))"

definition pad2 :: "nat \<Rightarrow> string" where
  "pad2 n = (if n < 10 then CHR ''0'' # str_of_nat n else str_of_nat n)"

fun str_of_cell :: "cell \<Rightarrow> string" where
  "str_of_cell Missing = ''nan''"
| "str_of_cell (Num i) = str_of_int i"
| "str_of_cell (Str s) = s"
| "str_of_cell (Date (y, m, d)) = str_of_nat y @ ''-'' @ pad2 m @ ''-'' @ pad2 d @ '' 00:00:00''"

section \<open>The table loader\<close>

text \<open>\<^verbatim>\<open>df.columns = cols\<close>: the columns are relabelled by position.\<close>

definition set_columns :: "string list \<Rightarrow> table \<Rightarrow> table" where
  "set_columns cols df = \<lparr>columns = cols, rows = map (\<lambda>r. zip cols (map snd r)) (rows df)\<rparr>"

text \<open>
  \<^verbatim>\<open>normalize_columns\<close>. \<^verbatim>\<open>df.iloc[0]\<close> raises IndexError on a table with no data row.
\<close>

definition normalize_columns :: "table \<Rightarrow> py_error + table" where
  "normalize_columns df =
     (let cols = map strip (columns df) in
      if APP_REF_NAME \<in> set cols \<and> ACTION_COL_NAME \<in> set cols then Inr (set_columns cols df)
      else
        (case rows df of
           [] \<Rightarrow> Inl IndexError
         | r0 # rest \<Rightarrow>
             (let first_row = map (\<lambda>(c, v). strip (str_of_cell v)) r0 in
              if APP_REF_NAME \<in> set first_row \<and> ACTION_COL_NAME \<in> set first_row
              then Inr (set_columns first_row (df\<lparr>rows := rest\<rparr>))
              else Inr df)))"

text \<open>\<^verbatim>\<open>find_date_column\<close>: the first column whose lower-cased label contains "date".\<close>

definition find_date_column :: "table \<Rightarrow> string option" where
  "find_date_column df = find (\<lambda>col. str_contains ''date'' (lower col)) (columns df)"

text \<open>
  \<^verbatim>\<open>df[col] = v\<close> with one value for every row: an existing column keeps its place, a new
  one is added last.
\<close>

definition assign_const :: "string \<Rightarrow> cell \<Rightarrow> table \<Rightarrow> table" where
  "assign_const col v df =
     \<lparr>columns = (if col \<in> set (columns df) then columns df else columns df @ [col]),
      rows = map (AList.update col v) (rows df)\<rparr>"

text \<open>
  \<^verbatim>\<open>load_table\<close>. The HTML parser of the library is a parameter: \<open>read_html file\<close> is the
  first table of the file (its first row taken as header), or \<open>None\<close> when the parser
  finds no table and raises ValueError, which the loader catches: it then returns None.
\<close>

definition load_table :: "(string \<Rightarrow> table option) \<Rightarrow> string \<Rightarrow> py_error + table option" where
  "load_table read_html input_file =
     (case read_html input_file of
        None \<Rightarrow> Inr None
      | Some df \<Rightarrow>
          (case normalize_columns df of
             Inl e \<Rightarrow> Inl e
           | Inr df' \<Rightarrow> Inr (Some (assign_const SOURCE_FILE (Str input_file) df'))))"

section \<open>Discrepancy detection\<close>

text \<open>
  First occurrences: \<^verbatim>\<open>Series.unique()\<close>, the keys of \<^verbatim>\<open>groupby\<close> and
  \<^verbatim>\<open>drop_duplicates(keep="first")\<close> all keep the first element of every class, in order
  of first appearance. Two missing values count as the same value there.
\<close>

function unique_by :: "('a \<Rightarrow> 'k) \<Rightarrow> 'a list \<Rightarrow> 'a list" where
  "unique_by f [] = []"
| "unique_by f (x # xs) = x # unique_by f (filter (\<lambda>y. f y \<noteq> f x) xs)"
  by pat_completeness auto
termination
  by (relation "measure (\<lambda>(f, xs). length xs)") (auto simp: le_imp_less_Suc)

definition unique :: "'a list \<Rightarrow> 'a list" where
  "unique xs = unique_by (\<lambda>x. x) xs"

type_synonym composite_key = "cell \<times> cell \<times> cell"

definition composite_key :: "string \<Rightarrow> string \<Rightarrow> string \<Rightarrow> row \<Rightarrow> composite_key" where
  "composite_key date_col ref_col action_col r =
     (cell_at r date_col, cell_at r ref_col, cell_at r action_col)"

text \<open>
  \<^verbatim>\<open>df.groupby(keys, dropna=False)\<close>: one group for every key, rows with missing key
  parts included; a group holds its rows in table order. The library walks the groups in
  sorted key order; the model walks them in order of first appearance, so that only the
  order of the reports of different groups can differ.
\<close>

definition groupby :: "(row \<Rightarrow> composite_key) \<Rightarrow> row list \<Rightarrow> (composite_key \<times> row list) list" where
  "groupby kf rs = map (\<lambda>k. (k, filter (\<lambda>r. kf r = k) rs)) (unique (map kf rs))"

record discrepancy =
  key :: composite_key
  file_a :: cell
  file_b :: cell
  differences :: "(string \<times> cell \<times> cell) list"

text \<open>The loop over the columns (lines 82 to 92): the dictionary \<^verbatim>\<open>diffs\<close> in insertion order.\<close>

fun compare_columns :: "string list \<Rightarrow> row \<Rightarrow> row \<Rightarrow> string list \<Rightarrow> (string \<times> cell \<times> cell) list" where
  "compare_columns skip reference_row row [] = []"
| "compare_columns skip reference_row row (col # cols) =
     (if col \<in> set skip then compare_columns skip reference_row row cols
      else
        (let a = cell_at reference_row col; b = cell_at row col in
         if isna a \<and> isna b then compare_columns skip reference_row row cols
         else if py_ne a b then (col, (a, b)) # compare_columns skip reference_row row cols
         else compare_columns skip reference_row row cols))"

text \<open>The loop over the rows of one other file (lines 79 to 100).\<close>

fun compare_rows_loop :: "string list \<Rightarrow> string list \<Rightarrow> composite_key \<Rightarrow> row \<Rightarrow> row list \<Rightarrow> discrepancy list" where
  "compare_rows_loop cols skip k reference_row [] = []"
| "compare_rows_loop cols skip k reference_row (row # others) =
     (let diffs = compare_columns skip reference_row row cols in
      if diffs \<noteq> []
      then \<lparr>key = k, file_a = cell_at reference_row SOURCE_FILE,
            file_b = cell_at row SOURCE_FILE, differences = diffs\<rparr>
           # compare_rows_loop cols skip k reference_row others
      else compare_rows_loop cols skip k reference_row others)"

text \<open>
  The body of the loop over the groups (lines 67 to 100). \<^verbatim>\<open>group[...] == f\<close> selects with
  Python's equality; \<^verbatim>\<open>.iloc[0]\<close> of an empty selection raises IndexError.
\<close>

definition group_reports :: "string list \<Rightarrow> string list \<Rightarrow> composite_key \<times> row list \<Rightarrow> py_error + discrepancy list" where
  "group_reports cols skip kg =
     (case kg of (k, grp) \<Rightarrow>
        (let source_files = unique (map (\<lambda>r. cell_at r SOURCE_FILE) grp) in
         if length source_files \<le> 1 then Inr []
         else
           (let reference_file = hd source_files in
            case filter (\<lambda>r. py_eq (cell_at r SOURCE_FILE) reference_file) grp of
              [] \<Rightarrow> Inl IndexError
            | reference_row # _ \<Rightarrow>
                Inr (concat (map (\<lambda>src. compare_rows_loop cols skip k reference_row
                                    (filter (\<lambda>r. py_eq (cell_at r SOURCE_FILE) src) grp))
                                 (tl source_files))))))"

text \<open>A loop that appends the reports of every step and stops at the first exception.\<close>

fun collect :: "('a \<Rightarrow> py_error + 'b list) \<Rightarrow> 'a list \<Rightarrow> py_error + 'b list" where
  "collect f [] = Inr []"
| "collect f (x # xs) =
     (case f x of
        Inl e \<Rightarrow> Inl e
      | Inr ys \<Rightarrow> (case collect f xs of Inl e \<Rightarrow> Inl e | Inr zs \<Rightarrow> Inr (ys @ zs)))"

definition detect_discrepancies :: "table \<Rightarrow> string \<Rightarrow> string \<Rightarrow> string \<Rightarrow> py_error + discrepancy list" where
  "detect_discrepancies df date_col ref_col action_col =
     collect (group_reports (columns df) [date_col, ref_col, action_col, SOURCE_FILE])
       (groupby (composite_key date_col ref_col action_col) (rows df))"

section \<open>Library operations of the merge pipeline\<close>

text \<open>
  \<^verbatim>\<open>pd.to_datetime(column, errors="coerce", dayfirst=True)\<close> is a parameter
  \<open>to_datetime\<close> of the pipelines: it maps the cells of a column to timestamps, \<open>None\<close>
  being NaT (a value it cannot read). \<open>parse_dates\<close> stores the result in the column.
\<close>

definition cell_of_timestamp :: "date option \<Rightarrow> cell" where
  "cell_of_timestamp t = (case t of None \<Rightarrow> Missing | Some d \<Rightarrow> Date d)"

definition assign_column :: "string \<Rightarrow> cell list \<Rightarrow> table \<Rightarrow> table" where
  "assign_column col vs df = df\<lparr>rows := map (\<lambda>(r, v). AList.update col v r) (zip (rows df) vs)\<rparr>"

definition parse_dates :: "(cell list \<Rightarrow> date option list) \<Rightarrow> string \<Rightarrow> table \<Rightarrow> table" where
  "parse_dates to_datetime date_col df =
     assign_column date_col
       (map cell_of_timestamp (to_datetime (map (\<lambda>r. cell_at r date_col) (rows df)))) df"

text \<open>\<^verbatim>\<open>df.drop_duplicates(subset=keys, keep="first")\<close>.\<close>

definition drop_duplicates :: "(row \<Rightarrow> composite_key) \<Rightarrow> table \<Rightarrow> table" where
  "drop_duplicates kf df = df\<lparr>rows := unique_by kf (rows df)\<rparr>"

text \<open>
  \<^verbatim>\<open>df.sort_values(by=col)\<close> on a column of timestamps, with the defaults of the library:
  ascending, missing values last, \<^verbatim>\<open>kind="quicksort"\<close>. The library splits the positions
  into those with a value and those without, orders the first by the index sort
  \<^verbatim>\<open>argsort\<close> of the array library and appends the second as they stand. The index sort
  is a parameter \<open>argsort\<close>: the source asks for no particular algorithm, and the default
  one is documented as not stable. \<open>argsort_contract\<close> is what every index sort gives:
  a rearrangement of the positions that puts the values in ascending order.
\<close>

definition timestamp_of :: "cell \<Rightarrow> date option" where
  "timestamp_of v = (case v of Date d \<Rightarrow> Some d | _ \<Rightarrow> None)"

definition nargsort :: "(date list \<Rightarrow> nat list) \<Rightarrow> date option list \<Rightarrow> nat list" where
  "nargsort argsort items =
     (let idx = [0..<length items];
          non_nan_idx = filter (\<lambda>i. items ! i \<noteq> None) idx;
          nan_idx = filter (\<lambda>i. items ! i = None) idx;
          non_nans = map (\<lambda>i. the (items ! i)) non_nan_idx
      in map (\<lambda>j. non_nan_idx ! j) (argsort non_nans) @ nan_idx)"

definition sort_values :: "(date list \<Rightarrow> nat list) \<Rightarrow> string \<Rightarrow> table \<Rightarrow> table" where
  "sort_values argsort by_col df =
     df\<lparr>rows := map (\<lambda>i. rows df ! i)
                    (nargsort argsort (map (\<lambda>r. timestamp_of (cell_at r by_col)) (rows df)))\<rparr>"


text \<open>\<^verbatim>\<open>df.drop(columns=[col])\<close> and \<^verbatim>\<open>df[cols]\<close>.\<close>

definition drop_column :: "string \<Rightarrow> table \<Rightarrow> table" where
  "drop_column col df =
     \<lparr>columns = filter (\<lambda>c. c \<noteq> col) (columns df),
      rows = map (filter (\<lambda>(c, v). c \<noteq> col)) (rows df)\<rparr>"

definition select_columns :: "string list \<Rightarrow> table \<Rightarrow> table" where
  "select_columns cols df = \<lparr>columns = cols, rows = map (\<lambda>r. map (\<lambda>c. (c, cell_at r c)) cols) (rows df)\<rparr>"

text \<open>
  \<^verbatim>\<open>set.intersection\<close> of the column sets, listed. Python lists a set in no fixed order;
  the model lists the common columns in the order of the first table.
\<close>

fun common_columns :: "table list \<Rightarrow> string list" where
  "common_columns [] = []"
| "common_columns (df # dfs) =
     filter (\<lambda>c. list_all (\<lambda>d. c \<in> set (columns d)) dfs) (unique (columns df))"

text \<open>\<^verbatim>\<open>pd.concat(dfs, ignore_index=True)\<close> of tables that all have the columns \<open>cols\<close>.\<close>

definition concat_tables :: "string list \<Rightarrow> table list \<Rightarrow> table" where
  "concat_tables cols dfs = \<lparr>columns = cols, rows = concat (map rows dfs)\<rparr>"

section \<open>The two pipelines\<close>

text \<open>
  A run ends with \<^verbatim>\<open>sys.exit(code)\<close> after a printed message, or with an exception that
  nothing catches.
\<close>

datatype failure = SysExit nat string | Uncaught py_error

text \<open>The loading loop of \<^verbatim>\<open>merge_all\<close> (lines 130 to 133): files without a table are skipped.\<close>

fun load_all :: "(string \<Rightarrow> table option) \<Rightarrow> string list \<Rightarrow> py_error + table list" where
  "load_all read_html [] = Inr []"
| "load_all read_html (file # files) =
     (case load_table read_html file of
        Inl e \<Rightarrow> Inl e
      | Inr loaded \<Rightarrow>
          (case load_all read_html files of
             Inl e \<Rightarrow> Inl e
           | Inr dfs \<Rightarrow> Inr (case loaded of None \<Rightarrow> dfs | Some df \<Rightarrow> df # dfs)))"

text \<open>Lines 139 to 142: the tables cut down to their common columns and stacked.\<close>

definition concat_common :: "table list \<Rightarrow> table" where
  "concat_common dfs =
     (let common_cols = common_columns dfs in
      concat_tables common_cols (map (select_columns common_cols) dfs))"

text \<open>What a merge run leaves: the table written to \<^verbatim>\<open>merged.csv\<close> and the reports printed.\<close>

record merge_result =
  merged_csv :: table
  discrepancies :: "discrepancy list"

definition quoted :: "string \<Rightarrow> string" where
  "quoted s = [CHR 0x27] @ s @ [CHR 0x27]"

definition column_not_found :: "string \<Rightarrow> string" where
  "column_not_found col = ''Error: '' @ quoted col @ '' column not found''"

definition no_date_column :: string where
  "no_date_column = ''Error: no column header containing '' @ quoted ''date'' @ '' found''"

definition merge_all ::
  "(string \<Rightarrow> table option) \<Rightarrow> (cell list \<Rightarrow> date option list) \<Rightarrow> (date list \<Rightarrow> nat list)
     \<Rightarrow> string list \<Rightarrow> failure + merge_result" where
  "merge_all read_html to_datetime argsort files =
     (case load_all read_html files of
        Inl e \<Rightarrow> Inl (Uncaught e)
      | Inr dfs \<Rightarrow>
          if dfs = [] then Inl (SysExit 1 ''No valid tables to merge'')
          else
            (let merged_df = concat_common dfs in
             if APP_REF_NAME \<notin> set (columns merged_df)
             then Inl (SysExit 1 (column_not_found APP_REF_NAME))
             else if ACTION_COL_NAME \<notin> set (columns merged_df)
             then Inl (SysExit 1 (column_not_found ACTION_COL_NAME))
             else
               (case find_date_column merged_df of
                  None \<Rightarrow> Inl (SysExit 1 no_date_column)
                | Some date_col \<Rightarrow>
                    (let merged_df = parse_dates to_datetime date_col merged_df in
                     case detect_discrepancies merged_df date_col APP_REF_NAME ACTION_COL_NAME of
                       Inl e \<Rightarrow> Inl (Uncaught e)
                     | Inr found \<Rightarrow>
                         (let merged_df =
                                drop_duplicates
                                  (composite_key date_col APP_REF_NAME ACTION_COL_NAME) merged_df;
                              merged_df = sort_values argsort date_col merged_df;
                              merged_df = drop_column SOURCE_FILE merged_df
                          in Inr \<lparr>merged_csv = merged_df, discrepancies = found\<rparr>)))))"

text \<open>
  \<^verbatim>\<open>convert_individual\<close>: one table written for every file that has one, listed here
  with the name of its input file.
\<close>

fun convert_individual ::
  "(string \<Rightarrow> table option) \<Rightarrow> (cell list \<Rightarrow> date option list) \<Rightarrow> (date list \<Rightarrow> nat list)
     \<Rightarrow> string list \<Rightarrow> py_error + (string \<times> table) list" where
  "convert_individual read_html to_datetime argsort [] = Inr []"
| "convert_individual read_html to_datetime argsort (file # files) =
     (case load_table read_html file of
        Inl e \<Rightarrow> Inl e
      | Inr None \<Rightarrow> convert_individual read_html to_datetime argsort files
      | Inr (Some df) \<Rightarrow>
          (let df = (case find_date_column df of
                       Some date_col \<Rightarrow>
                         sort_values argsort date_col (parse_dates to_datetime date_col df)
                     | None \<Rightarrow> df);
               df = drop_column SOURCE_FILE df
           in case convert_individual read_html to_datetime argsort files of
                Inl e \<Rightarrow> Inl e
              | Inr written \<Rightarrow> Inr ((file, df) # written)))"

section \<open>A day-first date parser and the index sorts used as instances\<close>

text \<open>
  An instance of \<open>to_datetime\<close> for texts in the two layouts of the specification's
  scenario: \<^verbatim>\<open>YYYY-MM-DD\<close>, and \<^verbatim>\<open>DD/MM/YYYY\<close> read day first (month first only when
  the day-first reading is no calendar date). Each value is read on its own; every other
  value is coerced to NaT.
\<close>

definition digit_val :: "char \<Rightarrow> nat option" where
  "digit_val c = (let n = (of_char c :: nat) in if 48 \<le> n \<and> n \<le> 57 then Some (n - 48) else None)"

fun nat_of_digits :: "nat \<Rightarrow> string \<Rightarrow> nat option" where
  "nat_of_digits acc [] = Some acc"
| "nat_of_digits acc (c # cs) =
     (case digit_val c of None \<Rightarrow> None | Some d \<Rightarrow> nat_of_digits (10 * acc + d) cs)"

definition parse_nat :: "string \<Rightarrow> nat option" where
  "parse_nat s = (if s = [] then None else nat_of_digits 0 s)"

fun split_on :: "char \<Rightarrow> string \<Rightarrow> string list" where
  "split_on sep [] = [[]]"
| "split_on sep (c # cs) =
     (if c = sep then [] # split_on sep cs
      else (case split_on sep cs of [] \<Rightarrow> [[c]] | p # ps \<Rightarrow> (c # p) # ps))"

definition leap_year :: "nat \<Rightarrow> bool" where
  "leap_year y = ((y mod 4 = 0 \<and> y mod 100 \<noteq> 0) \<or> y mod 400 = 0)"

definition days_in_month :: "nat \<Rightarrow> nat \<Rightarrow> nat" where
  "days_in_month y m =
     (if m = 2 then (if leap_year y then 29 else 28)
      else if m = 4 \<or> m = 6 \<or> m = 9 \<or> m = 11 then 30 else 31)"

definition valid_date :: "nat \<Rightarrow> nat \<Rightarrow> nat \<Rightarrow> bool" where
  "valid_date y m d = (1 \<le> m \<and> m \<le> 12 \<and> 1 \<le> d \<and> d \<le> days_in_month y m)"

definition parse_fields :: "string list \<Rightarrow> (nat \<times> nat \<times> nat) option" where
  "parse_fields fs =
     (case map parse_nat fs of
        [Some a, Some b, Some c] \<Rightarrow> Some (a, b, c)
      | _ \<Rightarrow> None)"

definition to_datetime_cell :: "cell \<Rightarrow> date option" where
  "to_datetime_cell v =
     (case v of
        Date d \<Rightarrow> Some d
      | Str s \<Rightarrow>
          (case parse_fields (split_on CHR ''-'' (strip s)) of
             Some (y, m, d) \<Rightarrow> if valid_date y m d then Some (y, m, d) else None
           | None \<Rightarrow>
               (case parse_fields (split_on CHR ''/'' (strip s)) of
                  Some (a, b, y) \<Rightarrow>
                    if valid_date y b a then Some (y, b, a)
                    else if valid_date y a b then Some (y, a, b)
                    else None
                | None \<Rightarrow> None))
      | _ \<Rightarrow> None)"

definition to_datetime_dayfirst :: "cell list \<Rightarrow> date option list" where
  "to_datetime_dayfirst vs = map to_datetime_cell vs"

text \<open>
  Two index sorts that meet \<open>argsort_contract\<close>: on equal values the first keeps the
  earlier position first, the second puts the later position first.
\<close>

definition argsort_stable :: "date list \<Rightarrow> nat list" where
  "argsort_stable ks = sort_key (\<lambda>i. ks ! i) [0..<length ks]"


section \<open>The tables of the specification's scenario\<close>




section \<open>Example inputs\<close>

text \<open>
  A table as discrepancy detection receives it, dates parsed and rows tagged. The first
  three rows share one key: two come from \<^verbatim>\<open>a.html\<close>, one from \<^verbatim>\<open>b.html\<close>. The next two
  share a key with a missing date and come from one file. The last two share a key across
  two files and differ in nothing: both amounts are missing.
\<close>

definition detect_columns :: "string list" where
  "detect_columns =
     [''date'', ''Application Reference'', ''Transaction Type'', ''amount'', ''_source_file'']"

definition detect_row :: "cell \<Rightarrow> string \<Rightarrow> string \<Rightarrow> cell \<Rightarrow> string \<Rightarrow> row" where
  "detect_row d ref action amount file =
     [(''date'', d), (''Application Reference'', Str ref), (''Transaction Type'', Str action),
      (''amount'', amount), (''_source_file'', Str file)]"

definition detect_example :: table where
  "detect_example =
     \<lparr>columns = detect_columns,
      rows = [detect_row (Date (2024, 1, 5)) ''APP1'' ''DEBIT'' (Num 100) ''a.html'',
              detect_row (Date (2024, 1, 5)) ''APP1'' ''DEBIT'' (Num 999) ''a.html'',
              detect_row (Date (2024, 1, 5)) ''APP1'' ''DEBIT'' (Num 150) ''b.html'',
              detect_row Missing ''APP2'' ''CREDIT'' (Num 5) ''a.html'',
              detect_row Missing ''APP2'' ''CREDIT'' (Str ''5'') ''a.html'',
              detect_row (Date (2024, 2, 1)) ''APP3'' ''DEBIT'' Missing ''a.html'',
              detect_row (Date (2024, 2, 1)) ''APP3'' ''DEBIT'' Missing ''b.html'']\<rparr>"

text \<open>Tables as the HTML parser returns them.\<close>

definition header_only_export :: table where
  "header_only_export = \<lparr>columns = [''Name'', ''Total''], rows = []\<rparr>"



definition no_action_column_export :: table where
  "no_action_column_export =
     \<lparr>columns = [''date'', ''Application Reference'', ''amount''],
      rows = [[(''date'', Str ''05/01/2024''), (''Application Reference'', Str ''APP1''),
               (''amount'', Num 150)]]\<rparr>"

definition examples_read_html :: "string \<Rightarrow> table option" where
  "examples_read_html file =
     (if file = ''header_only.html'' then Some header_only_export
      else if file = ''no_action.html'' then Some no_action_column_export
      else None)"




section \<open>Facts about the string helpers\<close>

lemma starts_with_iff: "starts_with sub s \<longleftrightarrow> (\<exists>t. s = sub @ t)"
  by (induction sub s rule: starts_with.induct) auto

lemma str_contains_iff: "str_contains sub s \<longleftrightarrow> (\<exists>p t. s = p @ sub @ t)"
proof (induction s)
  case Nil
  then show ?case by auto
next
  case (Cons c cs)
  note IH = Cons.IH
  show ?case
  proof
    assume "str_contains sub (c # cs)"
    then consider "starts_with sub (c # cs)" | "str_contains sub cs" by auto
    then show "\<exists>p t. c # cs = p @ sub @ t"
    proof cases
      case 1
      then obtain t where "c # cs = sub @ t" by (auto simp: starts_with_iff)
      then have "c # cs = [] @ sub @ t" by simp
      then show ?thesis by blast
    next
      case 2
      then obtain p t where "cs = p @ sub @ t" using IH by auto
      then have "c # cs = (c # p) @ sub @ t" by simp
      then show ?thesis by blast
    qed
  next
    assume "\<exists>p t. c # cs = p @ sub @ t"
    then obtain p t where pt: "c # cs = p @ sub @ t" by auto
    show "str_contains sub (c # cs)"
    proof (cases p)
      case Nil
      then have "starts_with sub (c # cs)" using pt by (simp add: starts_with_iff)
      then show ?thesis by simp
    next
      case (Cons a p')
      then have "cs = p' @ sub @ t" using pt by simp
      then have "str_contains sub cs" using IH by blast
      then show ?thesis by simp
    qed
  qed
qed

lemma lower_contains_iff:
  "str_contains sub (lower col) \<longleftrightarrow> (\<exists>p m t. col = p @ m @ t \<and> lower m = sub)"
  unfolding str_contains_iff lower_def
  by (metis append_eq_map_conv map_append)

section \<open>Date column detection\<close>

text \<open>
  Claim C8. \<^verbatim>\<open>find_date_column\<close> returns the first column, in column order, whose name
  contains "date" in any mix of upper and lower case, and returns nothing exactly when no
  column name contains it. A name contains "date" case-insensitively when a contiguous
  piece of it lower-cases to \<open>''date''\<close>.
\<close>

theorem find_date_column_first:
  "(find_date_column df = None \<longleftrightarrow>
      (\<forall>col \<in> set (columns df). \<not> (\<exists>p m t. col = p @ m @ t \<and> lower m = ''date'')))
   \<and> (\<forall>col. find_date_column df = Some col \<longleftrightarrow>
        (\<exists>i < length (columns df). columns df ! i = col
            \<and> (\<exists>p m t. col = p @ m @ t \<and> lower m = ''date'')
            \<and> (\<forall>j < i. \<not> (\<exists>p m t. columns df ! j = p @ m @ t \<and> lower m = ''date''))))"
  unfolding find_date_column_def find_None_iff find_Some_iff lower_contains_iff
  by blast

theorem find_date_column_first_witness:
  "find_date_column \<lparr>columns = [''id'', ''Value DATE'', ''date''], rows = []\<rparr> = Some ''Value DATE''
   \<and> (\<exists>p m t. ''Value DATE'' = p @ m @ t \<and> lower m = ''date'')
   \<and> find_date_column \<lparr>columns = [''id'', ''amount''], rows = []\<rparr> = None"
proof -
  have a: "find_date_column \<lparr>columns = [''id'', ''Value DATE'', ''date''], rows = []\<rparr>
             = Some ''Value DATE''"
    by (simp add: find_date_column_def lower_def lower_char_def)
  have b: "\<exists>p m t. ''Value DATE'' = p @ m @ t \<and> lower m = ''date''"
    using find_date_column_first
            [of "\<lparr>columns = [''id'', ''Value DATE'', ''date''], rows = []\<rparr>"] a
    by blast
  have c: "find_date_column \<lparr>columns = [''id'', ''amount''], rows = []\<rparr> = None"
    by (simp add: find_date_column_def lower_def lower_char_def)
  show ?thesis using a b c by blast
qed

section \<open>The loader on a table without data rows\<close>

text \<open>
  Claim C10. The loader is not total: on a parsed table that has no data row and whose
  trimmed headers do not hold both designated names, header normalization reads the first
  data row and raises IndexError. Nothing catches it: \<^verbatim>\<open>load_table\<close> raises instead of
  returning None (the recoverable skip of a file without a table), and both pipelines end
  with the exception when they reach such a file first.
\<close>

theorem load_table_empty_table_raises:
  assumes "read_html file = Some df" and "rows df = []"
    and "\<not> (APP_REF_NAME \<in> set (map strip (columns df)) \<and> ACTION_COL_NAME \<in> set (map strip (columns df)))"
  shows "normalize_columns df = Inl IndexError
    \<and> load_table read_html file = Inl IndexError
    \<and> load_table read_html file \<noteq> Inr None
    \<and> merge_all read_html to_datetime argsort (file # files) = Inl (Uncaught IndexError)
    \<and> convert_individual read_html to_datetime argsort (file # files) = Inl IndexError"
proof -
  have n: "normalize_columns df = Inl IndexError"
    using assms(2,3) by (auto simp: normalize_columns_def Let_def)
  have l: "load_table read_html file = Inl IndexError"
    using assms(1) n by (simp add: load_table_def)
  have m: "merge_all read_html to_datetime argsort (file # files) = Inl (Uncaught IndexError)"
    using l by (simp add: merge_all_def)
  have c: "convert_individual read_html to_datetime argsort (file # files) = Inl IndexError"
    using l by simp
  show ?thesis using n l m c by simp
qed


theorem load_table_empty_table_raises_witness:
  "normalize_columns header_only_export = Inl IndexError
   \<and> load_table examples_read_html ''header_only.html'' = Inl IndexError
   \<and> load_table examples_read_html ''header_only.html'' \<noteq> Inr None
   \<and> merge_all examples_read_html to_datetime_dayfirst argsort_stable
        [''header_only.html'', ''no_action.html''] = Inl (Uncaught IndexError)
   \<and> convert_individual examples_read_html to_datetime_dayfirst argsort_stable
        [''header_only.html'', ''no_action.html''] = Inl IndexError"
proof -
  have a: "examples_read_html ''header_only.html'' = Some header_only_export"
    by (simp add: examples_read_html_def)
  have b: "rows header_only_export = []"
    by (simp add: header_only_export_def)
  have c: "\<not> (APP_REF_NAME \<in> set (map strip (columns header_only_export))
              \<and> ACTION_COL_NAME \<in> set (map strip (columns header_only_export)))"
    by (simp add: header_only_export_def APP_REF_NAME_def strip_def is_space_def)
  show ?thesis
    using load_table_empty_table_raises
            [of examples_read_html "''header_only.html''" header_only_export
               to_datetime_dayfirst argsort_stable "[''no_action.html'']", OF a b c]
    by simp
qed

section \<open>Facts about first occurrences, groups and the comparison loops\<close>


lemma image_unique_by: "f ` set (unique_by f xs) = f ` set xs"
proof (induction f xs rule: unique_by.induct)
  case (1 f)
  then show ?case by simp
next
  case (2 f x xs)
  have "f ` set (x # xs) = insert (f x) (f ` set (filter (\<lambda>y. f y \<noteq> f x) xs))"
    by auto
  then show ?case using 2 by simp
qed



lemma unique_by_all_same:
  "\<forall>x \<in> set xs. f x = a \<Longrightarrow> length (unique_by f xs) \<le> 1"
proof (cases xs)
  case Nil
  then show ?thesis by simp
next
  case (Cons x xs')
  assume "\<forall>x \<in> set xs. f x = a"
  then have "filter (\<lambda>y. f y \<noteq> f x) xs' = []" using Cons by (auto simp: filter_empty_conv)
  then show ?thesis using Cons by simp
qed

lemma set_unique: "set (unique xs) = set xs"
  using image_unique_by [of "\<lambda>x. x" xs] by (simp add: unique_def)


lemma groupby_member:
  "(k, g) \<in> set (groupby kf rs) \<longleftrightarrow> k \<in> kf ` set rs \<and> g = filter (\<lambda>r. kf r = k) rs"
  by (auto simp: groupby_def set_unique)


lemma collect_member:
  "collect f xs = Inr ys \<Longrightarrow> y \<in> set ys \<Longrightarrow> \<exists>x \<in> set xs. \<exists>zs. f x = Inr zs \<and> y \<in> set zs"
proof (induction xs arbitrary: ys)
  case Nil
  then show ?case by simp
next
  case (Cons x xs)
  then show ?case by (fastforce split: sum.splits)
qed

lemma compare_rows_loop_member:
  "d \<in> set (compare_rows_loop cols skip k ref rs) \<longleftrightarrow>
     (\<exists>row \<in> set rs. compare_columns skip ref row cols \<noteq> []
        \<and> d = \<lparr>key = k, file_a = cell_at ref SOURCE_FILE, file_b = cell_at row SOURCE_FILE,
                differences = compare_columns skip ref row cols\<rparr>)"
  by (induction rs) (auto simp: Let_def)

lemma compare_columns_member:
  "(col, a, b) \<in> set (compare_columns skip ref row cols) \<longleftrightarrow>
     col \<in> set cols \<and> col \<notin> set skip \<and> a = cell_at ref col \<and> b = cell_at row col \<and> a \<noteq> b"
  by (induction cols) (auto simp: Let_def isna_def py_ne_def py_eq_def)

lemma group_reports_key:
  "group_reports cols skip (k, g) = Inr ds \<Longrightarrow> d \<in> set ds \<Longrightarrow> key d = k"
  by (auto simp: group_reports_def Let_def compare_rows_loop_member split: if_splits list.splits)

lemmas eval_defs = detect_example_def detect_columns_def detect_row_def composite_key_def
  cell_at_def SOURCE_FILE_def APP_REF_NAME_def ACTION_COL_NAME_def

lemmas detect_defs = detect_discrepancies_def groupby_def unique_def group_reports_def
  py_eq_def py_ne_def isna_def Let_def

section \<open>Keys of a single file\<close>

text \<open>
  Claim C3. A composite key whose rows all come from one source file produces no
  discrepancy report, whatever the number of its rows and however their other values
  differ: the group of that key is skipped, and no report of the whole detection carries
  that key.
\<close>

theorem single_file_key_no_report:
  assumes "\<forall>r \<in> set (rows df). composite_key date_col ref_col action_col r = k
              \<longrightarrow> cell_at r SOURCE_FILE = f"
  shows "group_reports (columns df) skip
           (k, filter (\<lambda>r. composite_key date_col ref_col action_col r = k) (rows df)) = Inr []
       \<and> (\<forall>ds. detect_discrepancies df date_col ref_col action_col = Inr ds
              \<longrightarrow> (\<forall>d \<in> set ds. key d \<noteq> k))"
proof -
  let ?kf = "composite_key date_col ref_col action_col"
  let ?g = "filter (\<lambda>r. ?kf r = k) (rows df)"
  have "\<forall>s \<in> set (map (\<lambda>r. cell_at r SOURCE_FILE) ?g). (\<lambda>x. x) s = f"
    using assms by auto
  then have len: "length (unique (map (\<lambda>r. cell_at r SOURCE_FILE) ?g)) \<le> 1"
    unfolding unique_def by (rule unique_by_all_same)
  then have g: "group_reports (columns df) skip (k, ?g) = Inr []"
    by (simp add: group_reports_def)
  have "key d \<noteq> k" if ds: "detect_discrepancies df date_col ref_col action_col = Inr ds"
    and d: "d \<in> set ds" for ds d
  proof
    assume kd: "key d = k"
    let ?skip = "[date_col, ref_col, action_col, SOURCE_FILE]"
    from collect_member [OF ds [unfolded detect_discrepancies_def] d]
    obtain kg zs where kg: "kg \<in> set (groupby ?kf (rows df))"
      and zs: "group_reports (columns df) ?skip kg = Inr zs" and dz: "d \<in> set zs"
      by blast
    obtain k' g' where kg': "kg = (k', g')" by (cases kg)
    have "k' = k" using group_reports_key zs dz kd kg' by blast
    then have "g' = ?g" using kg kg' by (simp add: groupby_member)
    then have "group_reports (columns df) ?skip kg = Inr []"
      using len kg' \<open>k' = k\<close> by (simp add: group_reports_def)
    then show False using zs dz by simp
  qed
  then show ?thesis using g by blast
qed

theorem single_file_key_no_report_witness:
  "group_reports (columns detect_example) [''date'', APP_REF_NAME, ACTION_COL_NAME, SOURCE_FILE]
     ((Missing, Str ''APP2'', Str ''CREDIT''),
      filter (\<lambda>r. composite_key ''date'' APP_REF_NAME ACTION_COL_NAME r
                    = (Missing, Str ''APP2'', Str ''CREDIT'')) (rows detect_example)) = Inr []
   \<and> detect_discrepancies detect_example ''date'' APP_REF_NAME ACTION_COL_NAME
     = Inr [\<lparr>key = (Date (2024, 1, 5), Str ''APP1'', Str ''DEBIT''), file_a = Str ''a.html'',
             file_b = Str ''b.html'', differences = [(''amount'', Num 100, Num 150)]\<rparr>]"
proof -
  have h: "\<forall>r \<in> set (rows detect_example).
      composite_key ''date'' APP_REF_NAME ACTION_COL_NAME r = (Missing, Str ''APP2'', Str ''CREDIT'')
        \<longrightarrow> cell_at r SOURCE_FILE = Str ''a.html''"
    by (simp add: eval_defs)
  have e: "detect_discrepancies detect_example ''date'' APP_REF_NAME ACTION_COL_NAME
     = Inr [\<lparr>key = (Date (2024, 1, 5), Str ''APP1'', Str ''DEBIT''), file_a = Str ''a.html'',
             file_b = Str ''b.html'', differences = [(''amount'', Num 100, Num 150)]\<rparr>]"
    by (simp add: eval_defs detect_defs)
  show ?thesis
    using single_file_key_no_report [OF h] e by blast
qed

section \<open>Missing values in grouping and comparison\<close>



section \<open>The reference row of a group\<close>

lemma unique_Cons:
  "unique (x # xs) = x # unique (filter (\<lambda>y. y \<noteq> x) xs)"
  by (simp add: unique_def)

lemma group_reports_Cons:
  "group_reports cols skip (k, r0 # g) =
     (let others = unique (map (\<lambda>r. cell_at r SOURCE_FILE)
                     (filter (\<lambda>r. cell_at r SOURCE_FILE \<noteq> cell_at r0 SOURCE_FILE) g))
      in if others = [] then Inr []
         else if cell_at r0 SOURCE_FILE = Missing then Inl IndexError
         else Inr (concat (map (\<lambda>s. compare_rows_loop cols skip k r0
                                  (filter (\<lambda>r. py_eq (cell_at r SOURCE_FILE) s) g)) others)))"
proof -
  let ?src = "\<lambda>r. cell_at r SOURCE_FILE"
  let ?s0 = "?src r0"
  let ?U = "unique (map ?src (filter (\<lambda>r. ?src r \<noteq> ?s0) g))"
  have S: "unique (map ?src (r0 # g)) = ?s0 # ?U"
    by (simp add: unique_Cons filter_map comp_def)
  have U: "s \<noteq> ?s0" if "s \<in> set ?U" for s
    using that by (auto simp: set_unique)
  have "compare_rows_loop cols skip k r0 (filter (\<lambda>r. py_eq (?src r) s) (r0 # g))
      = compare_rows_loop cols skip k r0 (filter (\<lambda>r. py_eq (?src r) s) g)"
    if "s \<in> set ?U" for s
    using U [OF that] by (simp add: py_eq_def)
  then have m: "map (\<lambda>s. compare_rows_loop cols skip k r0
                        (filter (\<lambda>r. py_eq (?src r) s) (r0 # g))) ?U
             = map (\<lambda>s. compare_rows_loop cols skip k r0
                        (filter (\<lambda>r. py_eq (?src r) s) g)) ?U"
    by (rule map_cong [OF refl])
  have c: "concat (map (\<lambda>s. compare_rows_loop cols skip k r0
                        (filter (\<lambda>r. py_eq (?src r) s) (r0 # g))) ?U)
         = concat (map (\<lambda>s. compare_rows_loop cols skip k r0
                        (filter (\<lambda>r. py_eq (?src r) s) g)) ?U)"
    by (rule arg_cong [where f = concat, OF m])
  show ?thesis
  proof (cases "?U = []")
    case True
    then show ?thesis unfolding group_reports_def by (simp add: S del: filter.simps list.map)
  next
    case False
    then have len: "\<not> length (unique (map ?src (r0 # g))) \<le> 1"
      by (simp add: S del: list.map)
    show ?thesis
    proof (cases "?s0 = Missing")
      case True
      then have "filter (\<lambda>r. py_eq (?src r) ?s0) (r0 # g) = []"
        by (simp add: py_eq_def isna_def)
      then show ?thesis
        unfolding group_reports_def using False True
        by (simp add: S Let_def del: filter.simps list.map)
    next
      case ne: False
      then obtain t where "filter (\<lambda>r. py_eq (?src r) ?s0) (r0 # g) = r0 # t"
        by (simp add: py_eq_def isna_def)
      then show ?thesis
        unfolding group_reports_def using False ne
        by (simp add: S c Let_def del: filter.simps list.map)
    qed
  qed
qed

text \<open>
  Claim C9. In a group of several files only its first row, which is the first row of the
  first-encountered file, is the reference row. The other rows of that file are compared
  with nothing: leaving them out of the group changes no report. Every report of the group
  names the reference row's file as file A and a different file as file B, and each of its
  differences pairs a value of the reference row with the value of one row of another file.
\<close>

theorem reference_row_only:
  "group_reports cols skip (k, r0 # g)
     = group_reports cols skip
         (k, r0 # filter (\<lambda>r. cell_at r SOURCE_FILE \<noteq> cell_at r0 SOURCE_FILE) g)
   \<and> (\<forall>ds. group_reports cols skip (k, r0 # g) = Inr ds \<longrightarrow>
        (\<forall>d \<in> set ds. file_a d = cell_at r0 SOURCE_FILE \<and> file_b d \<noteq> cell_at r0 SOURCE_FILE
            \<and> (\<exists>row \<in> set g. cell_at row SOURCE_FILE \<noteq> cell_at r0 SOURCE_FILE
                  \<and> file_b d = cell_at row SOURCE_FILE
                  \<and> (\<forall>col a b. (col, a, b) \<in> set (differences d) \<longrightarrow>
                        a = cell_at r0 col \<and> b = cell_at row col))))"
proof -
  let ?src = "\<lambda>r. cell_at r SOURCE_FILE"
  let ?s0 = "?src r0"
  let ?g' = "filter (\<lambda>r. ?src r \<noteq> ?s0) g"
  let ?U = "unique (map ?src ?g')"
  have U: "s \<noteq> ?s0" if "s \<in> set ?U" for s
    using that by (auto simp: set_unique)
  have "compare_rows_loop cols skip k r0 (filter (\<lambda>r. py_eq (?src r) s) ?g')
      = compare_rows_loop cols skip k r0 (filter (\<lambda>r. py_eq (?src r) s) g)"
    if "s \<in> set ?U" for s
  proof -
    have "(?src r \<noteq> ?s0 \<and> py_eq (?src r) s) = py_eq (?src r) s" for r
      using U [OF that] by (auto simp: py_eq_def)
    then show ?thesis by simp
  qed
  then have m: "map (\<lambda>s. compare_rows_loop cols skip k r0
                        (filter (\<lambda>r. py_eq (?src r) s) ?g')) ?U
             = map (\<lambda>s. compare_rows_loop cols skip k r0
                        (filter (\<lambda>r. py_eq (?src r) s) g)) ?U"
    by (rule map_cong [OF refl])
  have c: "concat (map (\<lambda>s. compare_rows_loop cols skip k r0
                        (filter (\<lambda>r. py_eq (?src r) s) ?g')) ?U)
         = concat (map (\<lambda>s. compare_rows_loop cols skip k r0
                        (filter (\<lambda>r. py_eq (?src r) s) g)) ?U)"
    by (rule arg_cong [where f = concat, OF m])
  have idem: "filter (\<lambda>r. ?src r \<noteq> ?s0) ?g' = ?g'"
    by simp
  have eq: "group_reports cols skip (k, r0 # g) = group_reports cols skip (k, r0 # ?g')"
    unfolding group_reports_Cons [of cols skip k r0 g] group_reports_Cons [of cols skip k r0 ?g']
      idem Let_def c ..
  have rep: "file_a d = ?s0 \<and> file_b d \<noteq> ?s0
            \<and> (\<exists>row \<in> set g. ?src row \<noteq> ?s0 \<and> file_b d = ?src row
                  \<and> (\<forall>col a b. (col, a, b) \<in> set (differences d) \<longrightarrow>
                        a = cell_at r0 col \<and> b = cell_at row col))"
    if ds: "group_reports cols skip (k, r0 # g) = Inr ds" and d: "d \<in> set ds" for ds d
  proof -
    from ds d obtain s where s: "s \<in> set ?U"
      and dm: "d \<in> set (compare_rows_loop cols skip k r0 (filter (\<lambda>r. py_eq (?src r) s) g))"
      unfolding group_reports_Cons [of cols skip k r0 g]
      by (auto simp: Let_def split: if_splits)
    from dm obtain row where row: "row \<in> set g" "py_eq (?src row) s"
      and dd: "d = \<lparr>key = k, file_a = ?s0, file_b = ?src row,
                    differences = compare_columns skip r0 row cols\<rparr>"
      by (auto simp: compare_rows_loop_member)
    have "?src row = s" using row(2) by (simp add: py_eq_def)
    then have "?src row \<noteq> ?s0" using U [OF s] by simp
    then show ?thesis using dd row(1) by (auto simp: compare_columns_member)
  qed
  show ?thesis using eq rep by blast
qed

theorem reference_row_only_witness:
  "group_reports detect_columns [''date'', APP_REF_NAME, ACTION_COL_NAME, SOURCE_FILE]
     ((Date (2024, 1, 5), Str ''APP1'', Str ''DEBIT''),
      [detect_row (Date (2024, 1, 5)) ''APP1'' ''DEBIT'' (Num 100) ''a.html'',
       detect_row (Date (2024, 1, 5)) ''APP1'' ''DEBIT'' (Num 999) ''a.html'',
       detect_row (Date (2024, 1, 5)) ''APP1'' ''DEBIT'' (Num 150) ''b.html''])
   = group_reports detect_columns [''date'', APP_REF_NAME, ACTION_COL_NAME, SOURCE_FILE]
     ((Date (2024, 1, 5), Str ''APP1'', Str ''DEBIT''),
      [detect_row (Date (2024, 1, 5)) ''APP1'' ''DEBIT'' (Num 100) ''a.html'',
       detect_row (Date (2024, 1, 5)) ''APP1'' ''DEBIT'' (Num 150) ''b.html''])
   \<and> group_reports detect_columns [''date'', APP_REF_NAME, ACTION_COL_NAME, SOURCE_FILE]
     ((Date (2024, 1, 5), Str ''APP1'', Str ''DEBIT''),
      [detect_row (Date (2024, 1, 5)) ''APP1'' ''DEBIT'' (Num 100) ''a.html'',
       detect_row (Date (2024, 1, 5)) ''APP1'' ''DEBIT'' (Num 999) ''a.html'',
       detect_row (Date (2024, 1, 5)) ''APP1'' ''DEBIT'' (Num 150) ''b.html''])
   = Inr [\<lparr>key = (Date (2024, 1, 5), Str ''APP1'', Str ''DEBIT''), file_a = Str ''a.html'',
           file_b = Str ''b.html'', differences = [(''amount'', Num 100, Num 150)]\<rparr>]"
proof -
  let ?k = "(Date (2024, 1, 5), Str ''APP1'', Str ''DEBIT'')"
  let ?r0 = "detect_row (Date (2024, 1, 5)) ''APP1'' ''DEBIT'' (Num 100) ''a.html''"
  let ?r1 = "detect_row (Date (2024, 1, 5)) ''APP1'' ''DEBIT'' (Num 999) ''a.html''"
  let ?r2 = "detect_row (Date (2024, 1, 5)) ''APP1'' ''DEBIT'' (Num 150) ''b.html''"
  let ?skip = "[''date'', APP_REF_NAME, ACTION_COL_NAME, SOURCE_FILE]"
  have f: "filter (\<lambda>r. cell_at r SOURCE_FILE \<noteq> cell_at ?r0 SOURCE_FILE) [?r1, ?r2] = [?r2]"
    by (simp add: eval_defs)
  have a: "group_reports detect_columns ?skip (?k, [?r0, ?r1, ?r2])
         = group_reports detect_columns ?skip (?k, [?r0, ?r2])"
    using reference_row_only [of detect_columns ?skip ?k ?r0 "[?r1, ?r2]"]
    unfolding f by blast
  have b: "group_reports detect_columns ?skip (?k, [?r0, ?r1, ?r2])
         = Inr [\<lparr>key = ?k, file_a = Str ''a.html'', file_b = Str ''b.html'',
                 differences = [(''amount'', Num 100, Num 150)]\<rparr>]"
    by (simp add: eval_defs detect_defs)
  show ?thesis using a b by blast
qed

section \<open>Facts about sorting\<close>









section \<open>Header normalization\<close>




lemmas loader_defs = normalize_columns_def strip_def is_space_def APP_REF_NAME_def
  ACTION_COL_NAME_def set_columns_def



section \<open>Validation of the key columns\<close>

lemma columns_concat_common: "columns (concat_common dfs) = common_columns dfs"
  by (simp add: concat_common_def concat_tables_def Let_def)

text \<open>
  Claim C6. In merge mode, when the tables are loaded and the columns common to all of them
  lack the Application Reference column or the Transaction Type column, or none of them
  contains "date" in any case, the run prints the matching error message and exits with
  code 1: it ends in \<^verbatim>\<open>sys.exit(1)\<close>, not in an exception, and writes no merged table.
\<close>

theorem merge_all_missing_column_exits:
  assumes "load_all read_html files = Inr dfs" and "dfs \<noteq> []"
    and "APP_REF_NAME \<notin> set (common_columns dfs) \<or> ACTION_COL_NAME \<notin> set (common_columns dfs)
         \<or> (\<forall>col \<in> set (common_columns dfs). \<not> str_contains ''date'' (lower col))"
  shows "merge_all read_html to_datetime argsort files =
           Inl (SysExit 1
                 (if APP_REF_NAME \<notin> set (common_columns dfs) then column_not_found APP_REF_NAME
                  else if ACTION_COL_NAME \<notin> set (common_columns dfs)
                  then column_not_found ACTION_COL_NAME
                  else no_date_column))"
proof -
  have d: "find_date_column (concat_common dfs) = None"
    if "\<forall>col \<in> set (common_columns dfs). \<not> str_contains ''date'' (lower col)"
    using that by (simp add: find_date_column_def find_None_iff columns_concat_common)
  show ?thesis
    using assms d
    by (auto simp: merge_all_def Let_def columns_concat_common)
qed


theorem merge_all_missing_column_exits_witness:
  "merge_all examples_read_html to_datetime_dayfirst argsort_stable [''no_action.html'']
     = Inl (SysExit 1 (column_not_found ACTION_COL_NAME))"
proof -
  have n: "normalize_columns no_action_column_export = Inr no_action_column_export"
    by (simp add: no_action_column_export_def loader_defs str_of_int_def str_of_nat.simps
        digit_char_def)
  have l: "load_all examples_read_html [''no_action.html'']
             = Inr [assign_const SOURCE_FILE (Str ''no_action.html'') no_action_column_export]"
    by (simp add: examples_read_html_def load_table_def n)
  have c: "common_columns [assign_const SOURCE_FILE (Str ''no_action.html'') no_action_column_export]
             = [''date'', ''Application Reference'', ''amount'', ''_source_file'']"
    by (simp add: assign_const_def no_action_column_export_def SOURCE_FILE_def unique_def)
  have h: "APP_REF_NAME \<notin> set (common_columns [assign_const SOURCE_FILE (Str ''no_action.html'') no_action_column_export])
       \<or> ACTION_COL_NAME \<notin> set (common_columns [assign_const SOURCE_FILE (Str ''no_action.html'') no_action_column_export])
       \<or> (\<forall>col \<in> set (common_columns [assign_const SOURCE_FILE (Str ''no_action.html'') no_action_column_export]).
             \<not> str_contains ''date'' (lower col))"
    unfolding c by (simp add: ACTION_COL_NAME_def)
  have "merge_all examples_read_html to_datetime_dayfirst argsort_stable [''no_action.html'']
     = Inl (SysExit 1
        (if APP_REF_NAME \<notin> set (common_columns [assign_const SOURCE_FILE (Str ''no_action.html'') no_action_column_export])
         then column_not_found APP_REF_NAME
         else if ACTION_COL_NAME \<notin> set (common_columns [assign_const SOURCE_FILE (Str ''no_action.html'') no_action_column_export])
         then column_not_found ACTION_COL_NAME
         else no_date_column))"
    by (rule merge_all_missing_column_exits [OF l _ h]) simp
  then show ?thesis unfolding c by (simp add: APP_REF_NAME_def ACTION_COL_NAME_def)
qed

section \<open>The sort by date\<close>





section \<open>Deduplication\<close>








section \<open>The scenario of the specification\<close>














end
